theory Spec2Isabelle
  imports Main
begin

section \<open>The category management API of fastapi\_docs.py\<close>

text \<open>
  The repository is one FastAPI module, \<^verbatim>\<open>src/requirements/fastapi_docs.py\<close>. It declares
  the pydantic request and response models of a category API, one authentication
  dependency (\<^verbatim>\<open>get_current_user\<close>) and eight handlers under \<^verbatim>\<open>/api/categories\<close>, each
  of which returns a literal dictionary.

  The values below are the parsed values of a request: a path parameter is a string, a
  query parameter an optional enum, a body a value of its pydantic model. The handlers
  are modelled on every value of their parameter types. The constraints that the
  \<^verbatim>\<open>Field\<close> declarations put on a body (\<^verbatim>\<open>min_length\<close>, \<^verbatim>\<open>max_length\<close>, \<^verbatim>\<open>ge\<close>) are checked
  by the route before its handler body runs; they are modelled with the routes. A string
  is a list of characters, and its length the number of them.
\<close>

subsection \<open>Request and response models\<close>

text \<open>\<^verbatim>\<open>class FormatEnum(str, Enum)\<close>: \<^verbatim>\<open>TREE = "tree"\<close>, \<^verbatim>\<open>FLAT = "flat"\<close>.\<close>

datatype FormatEnum = TREE | FLAT

text \<open>
  \<^verbatim>\<open>class CategoryCreate(CategoryBase)\<close>: the fields \<^verbatim>\<open>name: str\<close>,
  \<^verbatim>\<open>parentId: Optional[str]\<close> and \<^verbatim>\<open>order: Optional[int]\<close>, in this order.
\<close>

datatype CategoryCreate = CategoryCreate string "string option" "int option"

text \<open>
  \<^verbatim>\<open>class CategoryUpdate(BaseModel)\<close> and \<^verbatim>\<open>class CategoryPatch(BaseModel)\<close>: the fields
  \<^verbatim>\<open>name: Optional[str]\<close>, \<^verbatim>\<open>parentId: Optional[str]\<close> and \<^verbatim>\<open>order: Optional[int]\<close>, in
  this order.
\<close>

datatype CategoryUpdate = CategoryUpdate "string option" "string option" "int option"

datatype CategoryPatch = CategoryPatch "string option" "string option" "int option"

text \<open>
  \<^verbatim>\<open>class CategoryTreeNode(CategoryBase)\<close>: the fields \<^verbatim>\<open>id: str\<close>, \<^verbatim>\<open>name: str\<close> and
  \<^verbatim>\<open>children: List['CategoryTreeNode']\<close>, in this order. The \<^verbatim>\<open>id\<close> is a required field
  of the model.
\<close>

datatype CategoryTreeNode = CategoryTreeNode string string "CategoryTreeNode list"

text \<open>
  \<^verbatim>\<open>class CategoryResponse(CategoryBase)\<close>. The field \<^verbatim>\<open>id\<close> is written \<open>id'\<close>, since
  \<open>id\<close> is the identity function of HOL.
\<close>

record CategoryResponse =
  id' :: string
  name :: string
  parentId :: "string option"
  order :: int
  createdAt :: string
  updatedAt :: string

text \<open>
  \<^verbatim>\<open>class DeleteResponse(BaseModel)\<close>. Its field \<^verbatim>\<open>deleted\<close> (one ID) shares its name with
  the field \<^verbatim>\<open>deleted\<close> of \<^verbatim>\<open>TreeSaveResponse\<close> (a list of IDs); it is written
  \<open>DeleteResponse.deleted\<close> below.
\<close>

record DeleteResponse =
  success :: bool
  deleted :: string
  hasChildren :: bool
  childCount :: int

text \<open>\<^verbatim>\<open>class TreeSaveResponse(BaseModel)\<close>.\<close>

record TreeSaveResponse =
  created :: "string list"
  updated :: "string list"
  deleted :: "string list"

text \<open>
  The return value of \<^verbatim>\<open>get_categories\<close>, declared
  \<^verbatim>\<open>Union[List[CategoryTreeNode], List[CategoryResponse]]\<close>.
\<close>

datatype CategoryListing =
  TreeListing "CategoryTreeNode list"
| FlatListing "CategoryResponse list"

text \<open>The dictionary \<^verbatim>\<open>{"userId": ...}\<close> that \<^verbatim>\<open>get_current_user\<close> returns.\<close>

record user =
  userId :: string

text \<open>
  What a request can raise: the \<^verbatim>\<open>HTTPException\<close> of \<^verbatim>\<open>get_current_user\<close>, with its
  \<^verbatim>\<open>status_code\<close>, \<^verbatim>\<open>detail\<close> and \<^verbatim>\<open>headers\<close>; FastAPI's \<^verbatim>\<open>RequestValidationError\<close>,
  answered with HTTP 422, for a body that fails the constraints of its model; and Python's
  \<^verbatim>\<open>AttributeError\<close>, raised by \<^verbatim>\<open>category.name\<close> in \<^verbatim>\<open>update_category\<close> and by
  \<^verbatim>\<open>patch.name\<close> in \<^verbatim>\<open>patch_category\<close> when the body parameter kept its default \<^verbatim>\<open>None\<close>.
\<close>

datatype error =
  HTTPException nat string "(string \<times> string) list"
| RequestValidationError
| AttributeError

subsection \<open>Constraints of the request models\<close>

text \<open>
  \<^verbatim>\<open>CategoryBase.name\<close>: \<^verbatim>\<open>min_length=1\<close>, \<^verbatim>\<open>max_length=100\<close>. \<^verbatim>\<open>CategoryCreate\<close> and
  \<^verbatim>\<open>CategoryTreeNode\<close> inherit the field; \<^verbatim>\<open>CategoryUpdate\<close> and \<^verbatim>\<open>CategoryPatch\<close> declare
  the same bounds on their optional \<^verbatim>\<open>name\<close>, which hold of \<^verbatim>\<open>None\<close>.
\<close>

definition valid_name :: "string \<Rightarrow> bool" where
  "valid_name s = (1 \<le> length s \<and> length s \<le> 100)"

definition valid_optional_name :: "string option \<Rightarrow> bool" where
  "valid_optional_name x = (case x of None \<Rightarrow> True | Some s \<Rightarrow> valid_name s)"

text \<open>
  \<^verbatim>\<open>order: Optional[int]\<close> with \<^verbatim>\<open>ge=0\<close>, in \<^verbatim>\<open>CategoryCreate\<close>, \<^verbatim>\<open>CategoryUpdate\<close> and
  \<^verbatim>\<open>CategoryPatch\<close>. \<^verbatim>\<open>parentId\<close> and \<^verbatim>\<open>id\<close> carry no constraint.
\<close>

definition valid_order :: "int option \<Rightarrow> bool" where
  "valid_order x = (case x of None \<Rightarrow> True | Some n \<Rightarrow> 0 \<le> n)"

fun valid_CategoryCreate :: "CategoryCreate \<Rightarrow> bool" where
  "valid_CategoryCreate (CategoryCreate category_name category_parentId category_order) =
     (valid_name category_name \<and> valid_order category_order)"

fun valid_CategoryUpdate :: "CategoryUpdate \<Rightarrow> bool" where
  "valid_CategoryUpdate (CategoryUpdate category_name category_parentId category_order) =
     (valid_optional_name category_name \<and> valid_order category_order)"

fun valid_CategoryPatch :: "CategoryPatch \<Rightarrow> bool" where
  "valid_CategoryPatch (CategoryPatch patch_name patch_parentId patch_order) =
     (valid_optional_name patch_name \<and> valid_order patch_order)"

text \<open>A tree node is checked with all its \<^verbatim>\<open>children\<close>, at every depth.\<close>

fun valid_CategoryTreeNode :: "CategoryTreeNode \<Rightarrow> bool" where
  "valid_CategoryTreeNode (CategoryTreeNode i n cs) =
     (valid_name n \<and> list_all valid_CategoryTreeNode cs)"

subsection \<open>Authentication dependency\<close>

text \<open>\<^verbatim>\<open>API_KEY = "test_key"\<close>. No function of the module reads it.\<close>

definition API_KEY :: string where
  "API_KEY = ''test_key''"

text \<open>\<^verbatim>\<open>status.HTTP_401_UNAUTHORIZED\<close> and \<^verbatim>\<open>status.HTTP_404_NOT_FOUND\<close>.\<close>

definition HTTP_401_UNAUTHORIZED :: nat where
  "HTTP_401_UNAUTHORIZED = 401"

definition HTTP_404_NOT_FOUND :: nat where
  "HTTP_404_NOT_FOUND = 404"

text \<open>
  \<^verbatim>\<open>get_current_user(api_key = Security(api_key_header))\<close>. The header scheme is built with
  \<^verbatim>\<open>auto_error=False\<close>, so a request without the \<^verbatim>\<open>Authorization\<close> header gives
  \<^verbatim>\<open>api_key = None\<close>. \<^verbatim>\<open>not api_key\<close> holds of \<^verbatim>\<open>None\<close> and of the empty string.
\<close>

definition get_current_user :: "string option \<Rightarrow> error + user" where
  "get_current_user api_key =
     (if api_key = None \<or> api_key = Some []
      then Inl (HTTPException HTTP_401_UNAUTHORIZED ''Missing API Key''
                  [(''WWW-Authenticate'', ''Bearer'')])
      else Inr \<lparr>userId = ''user_2wUsqGRXsrr3oD5dsS8zJtGNXN4''\<rparr>)"

subsection \<open>Handlers\<close>

text \<open>
  Python's \<^verbatim>\<open>x or d\<close> on an optional integer and on an optional string: \<^verbatim>\<open>None\<close>, \<^verbatim>\<open>0\<close> and
  \<^verbatim>\<open>""\<close> are falsy.
\<close>

definition or_int :: "int option \<Rightarrow> int \<Rightarrow> int" where
  "or_int x d = (case x of None \<Rightarrow> d | Some n \<Rightarrow> if n = 0 then d else n)"

definition or_str :: "string option \<Rightarrow> string \<Rightarrow> string" where
  "or_str x d = (case x of None \<Rightarrow> d | Some s \<Rightarrow> if s = [] then d else s)"

text \<open>\<^verbatim>\<open>GET /api/categories\<close>.\<close>

definition get_categories :: "FormatEnum option \<Rightarrow> user \<Rightarrow> CategoryListing" where
  "get_categories format current_user =
     (if format = Some FLAT
      then FlatListing
        [\<lparr>id' = ''550e8400-e29b-41d4-a716-446655440000'', name = ''Electronics'',
          parentId = None, order = 0,
          createdAt = ''2023-07-15T12:00:00Z'', updatedAt = ''2023-07-15T12:00:00Z''\<rparr>,
         \<lparr>id' = ''550e8400-e29b-41d4-a716-446655440001'', name = ''Phones'',
          parentId = Some ''550e8400-e29b-41d4-a716-446655440000'', order = 0,
          createdAt = ''2023-07-15T12:00:00Z'', updatedAt = ''2023-07-15T12:00:00Z''\<rparr>]
      else TreeListing
        [CategoryTreeNode ''550e8400-e29b-41d4-a716-446655440000'' ''Electronics''
           [CategoryTreeNode ''550e8400-e29b-41d4-a716-446655440001'' ''Phones'' [],
            CategoryTreeNode ''550e8400-e29b-41d4-a716-446655440002'' ''Laptops'' []],
         CategoryTreeNode ''550e8400-e29b-41d4-a716-446655440003'' ''Clothing'' []])"

text \<open>\<^verbatim>\<open>GET /api/categories/tree\<close>.\<close>

definition get_category_tree :: "user \<Rightarrow> CategoryTreeNode list" where
  "get_category_tree current_user =
     [CategoryTreeNode ''550e8400-e29b-41d4-a716-446655440000'' ''Electronics''
        [CategoryTreeNode ''550e8400-e29b-41d4-a716-446655440001'' ''Phones'' []],
      CategoryTreeNode ''550e8400-e29b-41d4-a716-446655440003'' ''Clothing'' []]"

text \<open>\<^verbatim>\<open>GET /api/categories/{category_id}\<close>.\<close>

definition get_category :: "string \<Rightarrow> user \<Rightarrow> CategoryResponse" where
  "get_category category_id current_user =
     \<lparr>id' = category_id, name = ''Sample Category'', parentId = None, order = 0,
      createdAt = ''2023-07-15T12:00:00Z'', updatedAt = ''2023-07-15T12:00:00Z''\<rparr>"

text \<open>
  \<^verbatim>\<open>POST /api/categories\<close>. The handler reads the clock once; \<open>isoformat\<close> is what
  \<^verbatim>\<open>datetime.now().isoformat()\<close> returned.
\<close>

fun create_category :: "string \<Rightarrow> CategoryCreate \<Rightarrow> user \<Rightarrow> CategoryResponse" where
  "create_category isoformat (CategoryCreate category_name category_parentId category_order)
       current_user =
     (let now = isoformat @ ''Z'' in
      \<lparr>id' = ''550e8400-e29b-41d4-a716-446655440000'', name = category_name,
       parentId = category_parentId, order = or_int category_order 0,
       createdAt = now, updatedAt = now\<rparr>)"

text \<open>\<^verbatim>\<open>PUT /api/categories/tree\<close>, the batch save.\<close>

definition save_category_tree :: "CategoryTreeNode list \<Rightarrow> user \<Rightarrow> TreeSaveResponse" where
  "save_category_tree categories current_user =
     \<lparr>created = [''550e8400-e29b-41d4-a716-446655440001'',
                 ''550e8400-e29b-41d4-a716-446655440002''],
      updated = [''550e8400-e29b-41d4-a716-446655440000''],
      deleted = [''550e8400-e29b-41d4-a716-446655440003'']\<rparr>"

text \<open>
  \<^verbatim>\<open>PUT /api/categories/{category_id}\<close>. The body parameter is declared
  \<^verbatim>\<open>category: CategoryUpdate = None\<close>; on \<^verbatim>\<open>None\<close> the attribute access \<^verbatim>\<open>category.name\<close>
  raises.
\<close>

fun update_category ::
  "string \<Rightarrow> string \<Rightarrow> CategoryUpdate option \<Rightarrow> user \<Rightarrow> error + CategoryResponse" where
  "update_category isoformat category_id None current_user = Inl AttributeError"
| "update_category isoformat category_id
       (Some (CategoryUpdate category_name category_parentId category_order)) current_user =
     Inr \<lparr>id' = category_id, name = or_str category_name ''Updated Category'',
          parentId = category_parentId, order = or_int category_order 0,
          createdAt = ''2023-07-15T12:00:00Z'', updatedAt = isoformat @ ''Z''\<rparr>"

text \<open>
  \<^verbatim>\<open>PATCH /api/categories/{category_id}\<close>.
  \<^verbatim>\<open>patch.parentId if patch.parentId is not None else None\<close> is \<^verbatim>\<open>patch.parentId\<close>.
\<close>

fun patch_category ::
  "string \<Rightarrow> string \<Rightarrow> CategoryPatch option \<Rightarrow> user \<Rightarrow> error + CategoryResponse" where
  "patch_category isoformat category_id None current_user = Inl AttributeError"
| "patch_category isoformat category_id
       (Some (CategoryPatch patch_name patch_parentId patch_order)) current_user =
     Inr \<lparr>id' = category_id, name = or_str patch_name ''Patched Category'',
          parentId = (if patch_parentId \<noteq> None then patch_parentId else None),
          order = or_int patch_order 1,
          createdAt = ''2023-07-15T12:00:00Z'', updatedAt = isoformat @ ''Z''\<rparr>"

text \<open>\<^verbatim>\<open>DELETE /api/categories/{category_id}\<close>.\<close>

definition delete_category :: "string \<Rightarrow> user \<Rightarrow> DeleteResponse" where
  "delete_category category_id current_user =
     \<lparr>success = True, DeleteResponse.deleted = category_id,
      hasChildren = False, childCount = 0\<rparr>"

subsection \<open>Routing\<close>

text \<open>
  The eight routes under \<^verbatim>\<open>/api/categories\<close>, each with the parsed parameters of its
  handler, and what a handler returns.
\<close>

datatype request =
  GetCategories "FormatEnum option"
| GetCategoryTree
| GetCategory string
| CreateCategory CategoryCreate
| SaveCategoryTree "CategoryTreeNode list"
| UpdateCategory string "CategoryUpdate option"
| PatchCategory string "CategoryPatch option"
| DeleteCategory string

datatype response =
  Categories CategoryListing
| Tree "CategoryTreeNode list"
| Category CategoryResponse
| TreeSaved TreeSaveResponse
| Deleted DeleteResponse

text \<open>The handler body of a route, run with the user that the dependency resolved.\<close>

fun handler :: "string \<Rightarrow> request \<Rightarrow> user \<Rightarrow> error + response" where
  "handler isoformat (GetCategories format) u = Inr (Categories (get_categories format u))"
| "handler isoformat GetCategoryTree u = Inr (Tree (get_category_tree u))"
| "handler isoformat (GetCategory category_id) u = Inr (Category (get_category category_id u))"
| "handler isoformat (CreateCategory category) u =
     Inr (Category (create_category isoformat category u))"
| "handler isoformat (SaveCategoryTree categories) u =
     Inr (TreeSaved (save_category_tree categories u))"
| "handler isoformat (UpdateCategory category_id category) u =
     map_sum (\<lambda>e. e) Category (update_category isoformat category_id category u)"
| "handler isoformat (PatchCategory category_id patch) u =
     map_sum (\<lambda>e. e) Category (patch_category isoformat category_id patch u)"
| "handler isoformat (DeleteCategory category_id) u =
     Inr (Deleted (delete_category category_id u))"

text \<open>
  The check of a request against the models that its route declares: the body of
  \<^verbatim>\<open>create_category\<close> is a \<^verbatim>\<open>CategoryCreate\<close>, that of \<^verbatim>\<open>save_category_tree\<close> a
  \<^verbatim>\<open>List[CategoryTreeNode]\<close>, those of \<^verbatim>\<open>update_category\<close> and \<^verbatim>\<open>patch_category\<close> a
  \<^verbatim>\<open>CategoryUpdate\<close> and a \<^verbatim>\<open>CategoryPatch\<close> with the default \<^verbatim>\<open>None\<close>. The other routes
  have no body.
\<close>

fun valid_request :: "request \<Rightarrow> bool" where
  "valid_request (GetCategories format) = True"
| "valid_request GetCategoryTree = True"
| "valid_request (GetCategory category_id) = True"
| "valid_request (CreateCategory category) = valid_CategoryCreate category"
| "valid_request (SaveCategoryTree categories) = list_all valid_CategoryTreeNode categories"
| "valid_request (UpdateCategory category_id category) =
     (case category of None \<Rightarrow> True | Some c \<Rightarrow> valid_CategoryUpdate c)"
| "valid_request (PatchCategory category_id patch) =
     (case patch of None \<Rightarrow> True | Some p \<Rightarrow> valid_CategoryPatch p)"
| "valid_request (DeleteCategory category_id) = True"

text \<open>
  Every route declares \<^verbatim>\<open>current_user = Depends(get_current_user)\<close>. FastAPI calls the
  dependency first, and an exception it raises is the response. It then checks the
  request against the declared models, and answers a request that fails them with
  \<^verbatim>\<open>RequestValidationError\<close>. The handler body runs only on a request that passed both,
  with the user that the dependency returned.
\<close>

definition endpoint :: "string \<Rightarrow> string option \<Rightarrow> request \<Rightarrow> error + response" where
  "endpoint isoformat api_key req =
     (case get_current_user api_key of
        Inl e \<Rightarrow> Inl e
      | Inr current_user \<Rightarrow>
          if valid_request req then handler isoformat req current_user
          else Inl RequestValidationError)"

subsection \<open>The persisted state\<close>

text \<open>
  Modelled from the spec: the persistent store, an external collaborator that the module
  neither declares nor imports. The spec gives its read interface,
  \<^verbatim>\<open>listByOwner(userId) -> [CategoryRecord]\<close>, a record carrying
  \<^verbatim>\<open>{id, name, parentId, order, createdAt, updatedAt}\<close>, which are the fields of
  \<^verbatim>\<open>CategoryResponse\<close>. A store is the rows of every owner.
\<close>

type_synonym store = "string \<Rightarrow> CategoryResponse list"

definition listByOwner :: "store \<Rightarrow> string \<Rightarrow> CategoryResponse list" where
  "listByOwner st owner = st owner"

text \<open>
  One request served against a store. No handler and no dependency of the module reads or
  assigns anything but its parameters (no global, no attribute assignment, no call into a
  database client), so the store after a request is the store before it, and the response
  is that of \<open>endpoint\<close>.
\<close>

definition serve ::
  "string \<Rightarrow> store \<Rightarrow> string option \<Rightarrow> request \<Rightarrow> (error + response) \<times> store" where
  "serve isoformat st api_key req = (endpoint isoformat api_key req, st)"

subsection \<open>Vocabulary of the claims on submitted trees\<close>

text \<open>The IDs of a node and of all its descendants, the node first; and those of a forest.\<close>

fun node_ids :: "CategoryTreeNode \<Rightarrow> string list" where
  "node_ids (CategoryTreeNode i n cs) = i # concat (map node_ids cs)"

definition tree_ids :: "CategoryTreeNode list \<Rightarrow> string list" where
  "tree_ids categories = concat (map node_ids categories)"

text \<open>
  A node whose ancestor chain includes the node itself: its ID is the ID of one of its
  proper descendants. A forest has a cycle when one of its nodes, at any depth, is such a
  node.
\<close>

fun node_has_cycle :: "CategoryTreeNode \<Rightarrow> bool" where
  "node_has_cycle (CategoryTreeNode i n cs) =
     (i \<in> set (concat (map node_ids cs)) \<or> list_ex node_has_cycle cs)"

definition has_cycle :: "CategoryTreeNode list \<Rightarrow> bool" where
  "has_cycle categories = list_ex node_has_cycle categories"

text \<open>
  The flat rows that a submitted forest stands for: the ID and name of every node, with
  the ID of the node it is nested in (\<open>None\<close> for a root). A \<^verbatim>\<open>CategoryTreeNode\<close> has no
  \<^verbatim>\<open>order\<close> field.
\<close>

fun flatten_node ::
  "string option \<Rightarrow> CategoryTreeNode \<Rightarrow> (string \<times> string \<times> string option) list" where
  "flatten_node parent (CategoryTreeNode i n cs) =
     (i, n, parent) # concat (map (flatten_node (Some i)) cs)"

definition flatten :: "CategoryTreeNode list \<Rightarrow> (string \<times> string \<times> string option) list" where
  "flatten categories = concat (map (flatten_node None) categories)"

text \<open>
  The persisted IDs that a submission retains: those of the persisted rows that the
  submission lists again with the same ID, name and parent.
\<close>

definition retained :: "CategoryResponse list \<Rightarrow> CategoryTreeNode list \<Rightarrow> string list" where
  "retained persisted categories =
     map id' (filter (\<lambda>p. (id' p, name p, parentId p) \<in> set (flatten categories)) persisted)"

text \<open>Whether the three ID lists of a batch save response are pairwise disjoint.\<close>

definition pairwise_disjoint :: "TreeSaveResponse \<Rightarrow> bool" where
  "pairwise_disjoint r =
     (set (created r) \<inter> set (updated r) = {} \<and>
      set (created r) \<inter> set (deleted r) = {} \<and>
      set (updated r) \<inter> set (deleted r) = {})"

section \<open>Properties\<close>

subsection \<open>Helper facts\<close>

lemma get_current_user_Inr:
  "api_key \<noteq> None \<Longrightarrow> api_key \<noteq> Some [] \<Longrightarrow>
   get_current_user api_key = Inr \<lparr>userId = ''user_2wUsqGRXsrr3oD5dsS8zJtGNXN4''\<rparr>"
  by (simp add: get_current_user_def)

lemma endpoint_authenticated:
  "api_key \<noteq> None \<Longrightarrow> api_key \<noteq> Some [] \<Longrightarrow> valid_request req \<Longrightarrow>
   endpoint isoformat api_key req =
     handler isoformat req \<lparr>userId = ''user_2wUsqGRXsrr3oD5dsS8zJtGNXN4''\<rparr>"
  by (simp add: endpoint_def get_current_user_Inr)

lemma serve_authenticated:
  "api_key \<noteq> None \<Longrightarrow> api_key \<noteq> Some [] \<Longrightarrow> valid_request req \<Longrightarrow>
   serve isoformat st api_key req =
     (handler isoformat req \<lparr>userId = ''user_2wUsqGRXsrr3oD5dsS8zJtGNXN4''\<rparr>, st)"
  by (simp add: serve_def endpoint_authenticated)

lemma serve_save_category_tree:
  assumes "api_key \<noteq> None" and "api_key \<noteq> Some []"
    and "list_all valid_CategoryTreeNode categories"
  shows "serve isoformat st api_key (SaveCategoryTree categories) =
     (Inr (TreeSaved
        \<lparr>created = [''550e8400-e29b-41d4-a716-446655440001'',
                    ''550e8400-e29b-41d4-a716-446655440002''],
         updated = [''550e8400-e29b-41d4-a716-446655440000''],
         deleted = [''550e8400-e29b-41d4-a716-446655440003'']\<rparr>), st)"
  using assms by (simp add: serve_authenticated save_category_tree_def)

text \<open>The IDs of the flat rows of a forest are the IDs of the forest.\<close>

lemma map_fst_flatten_node: "map fst (flatten_node parent node) = node_ids node"
  by (induction node arbitrary: parent) (simp add: map_concat comp_def cong: map_cong)

lemma map_fst_flatten: "map fst (flatten categories) = tree_ids categories"
  by (simp add: flatten_def tree_ids_def map_concat comp_def map_fst_flatten_node)

lemma flatten_id_in_tree_ids:
  assumes "(i, n, p) \<in> set (flatten categories)"
  shows "i \<in> set (tree_ids categories)"
proof -
  have "fst (i, n, p) \<in> fst ` set (flatten categories)"
    using assms by (rule imageI)
  then have "i \<in> set (map fst (flatten categories))" by simp
  then show ?thesis by (simp only: map_fst_flatten)
qed

lemma retained_subset: "set (retained persisted categories) \<subseteq> set (tree_ids categories)"
  by (auto simp add: retained_def dest: flatten_id_in_tree_ids)

subsection \<open>What the responses depend on\<close>

text \<open>
  C1 says that every handler returns the same data whatever the request holds. Two calls
  of \<^verbatim>\<open>get_category\<close> with the IDs \<^verbatim>\<open>"a"\<close> and \<^verbatim>\<open>"b"\<close> return different data: the handler
  copies \<^verbatim>\<open>category_id\<close> into the \<^verbatim>\<open>id\<close> of its response.
\<close>

theorem get_category_echoes_category_id:
  "get_category ''a'' \<lparr>userId = ''user_2wUsqGRXsrr3oD5dsS8zJtGNXN4''\<rparr> \<noteq>
   get_category ''b'' \<lparr>userId = ''user_2wUsqGRXsrr3oD5dsS8zJtGNXN4''\<rparr>"
  by (simp add: get_category_def)

text \<open>
  C1, as the code has it. Only \<^verbatim>\<open>save_category_tree\<close> and \<^verbatim>\<open>get_category_tree\<close> return
  the same data for every request. The data that the other handlers return depends on the
  request, and two calls return equal data exactly in these cases:
  \<^verbatim>\<open>get_categories\<close>, when \<^verbatim>\<open>format\<close> is \<^verbatim>\<open>flat\<close> in both or in neither;
  \<^verbatim>\<open>get_category\<close> and \<^verbatim>\<open>delete_category\<close>, when \<^verbatim>\<open>category_id\<close> is the same;
  \<^verbatim>\<open>create_category\<close>, when \<^verbatim>\<open>name\<close>, \<^verbatim>\<open>parentId\<close>, the value of \<^verbatim>\<open>order or 0\<close> and the clock
  reading are the same;
  \<^verbatim>\<open>update_category\<close> and \<^verbatim>\<open>patch_category\<close>, when neither call has a body (both raise,
  whatever the \<^verbatim>\<open>category_id\<close>), or both have one and \<^verbatim>\<open>category_id\<close>, the value of
  \<^verbatim>\<open>name or\<close> the default name, \<^verbatim>\<open>parentId\<close>, the value of \<^verbatim>\<open>order or 0\<close> (for the patch,
  \<^verbatim>\<open>order or 1\<close>) and the clock reading are the same.
\<close>

theorem handlers_input_dependence:
  "save_category_tree categories1 user1 = save_category_tree categories2 user2 \<and>
   get_category_tree user1 = get_category_tree user2 \<and>
   (get_categories format1 user1 = get_categories format2 user2) =
     ((format1 = Some FLAT) = (format2 = Some FLAT)) \<and>
   (get_category id1 user1 = get_category id2 user2) = (id1 = id2) \<and>
   (delete_category id1 user1 = delete_category id2 user2) = (id1 = id2) \<and>
   (create_category isoformat1 (CategoryCreate name1 parent1 order1) user1 =
    create_category isoformat2 (CategoryCreate name2 parent2 order2) user2) =
     (name1 = name2 \<and> parent1 = parent2 \<and> or_int order1 0 = or_int order2 0 \<and>
      isoformat1 = isoformat2) \<and>
   update_category isoformat1 id1 None user1 = update_category isoformat2 id2 None user2 \<and>
   update_category isoformat1 id1 None user1 \<noteq>
     update_category isoformat2 id2 (Some category) user2 \<and>
   (update_category isoformat1 id1 (Some (CategoryUpdate oname1 parent1 order1)) user1 =
    update_category isoformat2 id2 (Some (CategoryUpdate oname2 parent2 order2)) user2) =
     (id1 = id2 \<and>
      or_str oname1 ''Updated Category'' = or_str oname2 ''Updated Category'' \<and>
      parent1 = parent2 \<and> or_int order1 0 = or_int order2 0 \<and> isoformat1 = isoformat2) \<and>
   patch_category isoformat1 id1 None user1 = patch_category isoformat2 id2 None user2 \<and>
   patch_category isoformat1 id1 None user1 \<noteq>
     patch_category isoformat2 id2 (Some patch) user2 \<and>
   (patch_category isoformat1 id1 (Some (CategoryPatch oname1 parent1 order1)) user1 =
    patch_category isoformat2 id2 (Some (CategoryPatch oname2 parent2 order2)) user2) =
     (id1 = id2 \<and>
      or_str oname1 ''Patched Category'' = or_str oname2 ''Patched Category'' \<and>
      parent1 = parent2 \<and> or_int order1 1 = or_int order2 1 \<and> isoformat1 = isoformat2)"
proof -
  have fixed: "save_category_tree categories1 user1 = save_category_tree categories2 user2"
    "get_category_tree user1 = get_category_tree user2"
    by (simp_all add: save_category_tree_def get_category_tree_def)
  have listing: "(get_categories format1 user1 = get_categories format2 user2) =
      ((format1 = Some FLAT) = (format2 = Some FLAT))"
    by (simp add: get_categories_def)
  have by_id: "(get_category id1 user1 = get_category id2 user2) = (id1 = id2)"
    "(delete_category id1 user1 = delete_category id2 user2) = (id1 = id2)"
    by (simp_all add: get_category_def delete_category_def)
  have cre: "(create_category isoformat1 (CategoryCreate name1 parent1 order1) user1 =
      create_category isoformat2 (CategoryCreate name2 parent2 order2) user2) =
      (name1 = name2 \<and> parent1 = parent2 \<and> or_int order1 0 = or_int order2 0 \<and>
       isoformat1 = isoformat2)"
    by (auto simp add: Let_def)
  have upd_none: "update_category isoformat1 id1 None user1 =
      update_category isoformat2 id2 None user2"
    by simp
  have upd_mixed: "update_category isoformat1 id1 None user1 \<noteq>
      update_category isoformat2 id2 (Some category) user2"
    by (cases category) simp
  have upd: "(update_category isoformat1 id1 (Some (CategoryUpdate oname1 parent1 order1)) user1 =
      update_category isoformat2 id2 (Some (CategoryUpdate oname2 parent2 order2)) user2) =
      (id1 = id2 \<and>
       or_str oname1 ''Updated Category'' = or_str oname2 ''Updated Category'' \<and>
       parent1 = parent2 \<and> or_int order1 0 = or_int order2 0 \<and> isoformat1 = isoformat2)"
    by auto
  have pat_none: "patch_category isoformat1 id1 None user1 =
      patch_category isoformat2 id2 None user2"
    by simp
  have pat_mixed: "patch_category isoformat1 id1 None user1 \<noteq>
      patch_category isoformat2 id2 (Some patch) user2"
    by (cases patch) simp
  have pat: "(patch_category isoformat1 id1 (Some (CategoryPatch oname1 parent1 order1)) user1 =
      patch_category isoformat2 id2 (Some (CategoryPatch oname2 parent2 order2)) user2) =
      (id1 = id2 \<and>
       or_str oname1 ''Patched Category'' = or_str oname2 ''Patched Category'' \<and>
       parent1 = parent2 \<and> or_int order1 1 = or_int order2 1 \<and> isoformat1 = isoformat2)"
    by auto
  show ?thesis
    by (intro conjI fixed listing by_id cre upd_none upd_mixed upd pat_none pat_mixed pat)
qed

subsection \<open>Batch save: submitting a tree again\<close>

text \<open>
  C2 says that submitting a tree that equals the stored state, in particular submitting
  the same tree twice, returns three empty lists. Against an empty store the empty tree is
  submitted twice with a credential: the store is still empty after the first call, the
  tree is empty, and the second call returns the three fixed lists, none of them empty.
\<close>

theorem resubmitted_tree_lists_not_empty:
  "(let st = (\<lambda>owner. []);
        first = serve ''2026-01-01T00:00:00'' st (Some ''test_key'') (SaveCategoryTree []);
        second = serve ''2026-01-01T00:00:01'' (snd first) (Some ''test_key'')
                   (SaveCategoryTree [])
    in listByOwner (snd first) ''user_2wUsqGRXsrr3oD5dsS8zJtGNXN4'' = [] \<and>
       tree_ids [] = [] \<and>
       fst second = Inr (TreeSaved
         \<lparr>created = [''550e8400-e29b-41d4-a716-446655440001'',
                     ''550e8400-e29b-41d4-a716-446655440002''],
          updated = [''550e8400-e29b-41d4-a716-446655440000''],
          deleted = [''550e8400-e29b-41d4-a716-446655440003'']\<rparr>))"
  by (simp add: serve_def endpoint_def get_current_user_def save_category_tree_def
      listByOwner_def tree_ids_def)

text \<open>
  C2, as the code has it. For every submitted tree that passes the schema, every store
  and every non-empty credential, the batch save returns the same three lists, two
  created IDs, one updated ID and one deleted ID, and leaves the store as it was; and
  submitting the tree again returns the same response and the same store. None of the
  lists is empty, also when the stored state equals the tree.
\<close>

theorem save_category_tree_resubmit:
  assumes "api_key \<noteq> None" and "api_key \<noteq> Some []"
    and "list_all valid_CategoryTreeNode categories"
  shows "serve isoformat1 st api_key (SaveCategoryTree categories) =
       (Inr (TreeSaved
          \<lparr>created = [''550e8400-e29b-41d4-a716-446655440001'',
                      ''550e8400-e29b-41d4-a716-446655440002''],
           updated = [''550e8400-e29b-41d4-a716-446655440000''],
           deleted = [''550e8400-e29b-41d4-a716-446655440003'']\<rparr>), st) \<and>
     serve isoformat2 (snd (serve isoformat1 st api_key (SaveCategoryTree categories))) api_key
         (SaveCategoryTree categories) =
       (Inr (TreeSaved
          \<lparr>created = [''550e8400-e29b-41d4-a716-446655440001'',
                      ''550e8400-e29b-41d4-a716-446655440002''],
           updated = [''550e8400-e29b-41d4-a716-446655440000''],
           deleted = [''550e8400-e29b-41d4-a716-446655440003'']\<rparr>), st)"
proof -
  have first: "serve isoformat1 st api_key (SaveCategoryTree categories) =
      (Inr (TreeSaved
         \<lparr>created = [''550e8400-e29b-41d4-a716-446655440001'',
                     ''550e8400-e29b-41d4-a716-446655440002''],
          updated = [''550e8400-e29b-41d4-a716-446655440000''],
          deleted = [''550e8400-e29b-41d4-a716-446655440003'']\<rparr>), st)"
    using assms by (rule serve_save_category_tree)
  have second: "serve isoformat2 st api_key (SaveCategoryTree categories) =
      (Inr (TreeSaved
         \<lparr>created = [''550e8400-e29b-41d4-a716-446655440001'',
                     ''550e8400-e29b-41d4-a716-446655440002''],
          updated = [''550e8400-e29b-41d4-a716-446655440000''],
          deleted = [''550e8400-e29b-41d4-a716-446655440003'']\<rparr>), st)"
    using assms by (rule serve_save_category_tree)
  show ?thesis by (simp add: first second)
qed

text \<open>
  C2, at a concrete request: the tree with the one root \<^verbatim>\<open>"1"\<close>, submitted twice with the
  credential \<^verbatim>\<open>"test_key"\<close> against an empty store.
\<close>

theorem save_category_tree_resubmit_witness:
  "Some ''test_key'' \<noteq> None \<and> Some ''test_key'' \<noteq> Some [] \<and>
   list_all valid_CategoryTreeNode [CategoryTreeNode ''1'' ''Electronics'' []] \<and>
   serve ''2026-01-01T00:00:00'' (\<lambda>owner. []) (Some ''test_key'')
       (SaveCategoryTree [CategoryTreeNode ''1'' ''Electronics'' []]) =
     (Inr (TreeSaved
        \<lparr>created = [''550e8400-e29b-41d4-a716-446655440001'',
                    ''550e8400-e29b-41d4-a716-446655440002''],
         updated = [''550e8400-e29b-41d4-a716-446655440000''],
         deleted = [''550e8400-e29b-41d4-a716-446655440003'']\<rparr>), (\<lambda>owner. [])) \<and>
   serve ''2026-01-01T00:00:01''
       (snd (serve ''2026-01-01T00:00:00'' (\<lambda>owner. []) (Some ''test_key'')
               (SaveCategoryTree [CategoryTreeNode ''1'' ''Electronics'' []])))
       (Some ''test_key'') (SaveCategoryTree [CategoryTreeNode ''1'' ''Electronics'' []]) =
     (Inr (TreeSaved
        \<lparr>created = [''550e8400-e29b-41d4-a716-446655440001'',
                    ''550e8400-e29b-41d4-a716-446655440002''],
         updated = [''550e8400-e29b-41d4-a716-446655440000''],
         deleted = [''550e8400-e29b-41d4-a716-446655440003'']\<rparr>), (\<lambda>owner. []))"
proof -
  have k: "Some ''test_key'' \<noteq> None" "Some ''test_key'' \<noteq> Some []" by simp_all
  have v: "list_all valid_CategoryTreeNode [CategoryTreeNode ''1'' ''Electronics'' []]"
    by (simp add: valid_name_def)
  note twice = save_category_tree_resubmit
      [OF k v, of "''2026-01-01T00:00:00''" "\<lambda>owner. []" "''2026-01-01T00:00:01''"]
  show ?thesis
    by (intro conjI k v twice [THEN conjunct1] twice [THEN conjunct2])
qed

subsection \<open>Batch save: the three ID lists\<close>

text \<open>
  C3. For every submitted tree and every persisted state, the three ID lists that the
  batch save returns (created, updated, deleted) are pairwise disjoint: no ID is in more
  than one of them. The handler takes no persisted state, so the statement over its two
  parameters covers every one.
\<close>

theorem save_category_tree_disjoint:
  "pairwise_disjoint (save_category_tree categories current_user)"
  by (simp add: pairwise_disjoint_def save_category_tree_def)

subsection \<open>Batch save: a tree with a cycle\<close>

text \<open>
  C4 says that a submitted tree in which a node is its own ancestor is rejected with a
  validation error. The tree below nests a node with the ID \<^verbatim>\<open>"a"\<close> in a node with the ID
  \<^verbatim>\<open>"a"\<close>; submitted with a credential it is answered with the three fixed lists, and the
  store is as it was.
\<close>

theorem cyclic_tree_accepted:
  "has_cycle [CategoryTreeNode ''a'' ''Electronics'' [CategoryTreeNode ''a'' ''Electronics'' []]] \<and>
   serve ''2026-01-01T00:00:00'' (\<lambda>owner. []) (Some ''test_key'')
       (SaveCategoryTree
          [CategoryTreeNode ''a'' ''Electronics'' [CategoryTreeNode ''a'' ''Electronics'' []]]) =
     (Inr (TreeSaved
        \<lparr>created = [''550e8400-e29b-41d4-a716-446655440001'',
                    ''550e8400-e29b-41d4-a716-446655440002''],
         updated = [''550e8400-e29b-41d4-a716-446655440000''],
         deleted = [''550e8400-e29b-41d4-a716-446655440003'']\<rparr>), (\<lambda>owner. []))"
  by (simp add: has_cycle_def serve_def endpoint_def get_current_user_def save_category_tree_def
      valid_name_def)

text \<open>
  C4, as the code has it. For every submitted tree that passes the schema and in which a
  node is its own ancestor, the batch save with a non-empty credential does not reject
  the submission: it returns the three fixed lists, and it performs no store mutation.
\<close>

theorem save_category_tree_accepts_cycle:
  assumes "has_cycle categories" and "list_all valid_CategoryTreeNode categories"
    and "api_key \<noteq> None" and "api_key \<noteq> Some []"
  shows "serve isoformat st api_key (SaveCategoryTree categories) =
     (Inr (TreeSaved
        \<lparr>created = [''550e8400-e29b-41d4-a716-446655440001'',
                    ''550e8400-e29b-41d4-a716-446655440002''],
         updated = [''550e8400-e29b-41d4-a716-446655440000''],
         deleted = [''550e8400-e29b-41d4-a716-446655440003'']\<rparr>), st)"
  using assms(3,4,2) by (rule serve_save_category_tree)

text \<open>
  C4, at a concrete tree: a root \<^verbatim>\<open>"a"\<close> with a child that has the ID \<^verbatim>\<open>"a"\<close> again,
  both with names that pass the schema, submitted with the credential \<^verbatim>\<open>"test_key"\<close>
  against an empty store.
\<close>

theorem save_category_tree_accepts_cycle_witness:
  "has_cycle [CategoryTreeNode ''a'' ''Electronics'' [CategoryTreeNode ''a'' ''Phones'' []]] \<and>
   list_all valid_CategoryTreeNode
     [CategoryTreeNode ''a'' ''Electronics'' [CategoryTreeNode ''a'' ''Phones'' []]] \<and>
   Some ''test_key'' \<noteq> None \<and> Some ''test_key'' \<noteq> Some [] \<and>
   serve ''2026-01-01T00:00:00'' (\<lambda>owner. []) (Some ''test_key'')
       (SaveCategoryTree
          [CategoryTreeNode ''a'' ''Electronics'' [CategoryTreeNode ''a'' ''Phones'' []]]) =
     (Inr (TreeSaved
        \<lparr>created = [''550e8400-e29b-41d4-a716-446655440001'',
                    ''550e8400-e29b-41d4-a716-446655440002''],
         updated = [''550e8400-e29b-41d4-a716-446655440000''],
         deleted = [''550e8400-e29b-41d4-a716-446655440003'']\<rparr>), (\<lambda>owner. []))"
proof -
  have c: "has_cycle [CategoryTreeNode ''a'' ''Electronics'' [CategoryTreeNode ''a'' ''Phones'' []]]"
    by (simp add: has_cycle_def)
  have v: "list_all valid_CategoryTreeNode
      [CategoryTreeNode ''a'' ''Electronics'' [CategoryTreeNode ''a'' ''Phones'' []]]"
    by (simp add: valid_name_def)
  have k: "Some ''test_key'' \<noteq> None" "Some ''test_key'' \<noteq> Some []" by simp_all
  show ?thesis
    using c v k save_category_tree_accepts_cycle
      [OF c v k, of "''2026-01-01T00:00:00''" "\<lambda>owner. []"]
    by simp
qed

subsection \<open>Batch save: persisted nodes that the submission leaves out\<close>

text \<open>
  C5 says that a persisted node absent from the submitted tree is in the returned deleted
  list, with all its descendants. The store below is the second example of the spec: the
  user owns \<^verbatim>\<open>"1"\<close> and its child \<^verbatim>\<open>"2"\<close>, and submits \<^verbatim>\<open>"1"\<close> without children. The node
  \<^verbatim>\<open>"2"\<close> is persisted and absent from the submission, and it is not in the deleted list.
\<close>

theorem dropped_child_not_deleted:
  "(let persisted =
          [\<lparr>id' = ''1'', name = ''Electronics'', parentId = None, order = 0,
            createdAt = ''2023-07-15T12:00:00Z'', updatedAt = ''2023-07-15T12:00:00Z''\<rparr>,
           \<lparr>id' = ''2'', name = ''Phones'', parentId = Some ''1'', order = 0,
            createdAt = ''2023-07-15T12:00:00Z'', updatedAt = ''2023-07-15T12:00:00Z''\<rparr>];
        st = (\<lambda>owner. if owner = ''user_2wUsqGRXsrr3oD5dsS8zJtGNXN4'' then persisted else []);
        categories = [CategoryTreeNode ''1'' ''Electronics'' []]
    in ''2'' \<in> set (map id' (listByOwner st ''user_2wUsqGRXsrr3oD5dsS8zJtGNXN4'')) \<and>
       ''2'' \<notin> set (tree_ids categories) \<and>
       fst (serve ''2026-01-01T00:00:00'' st (Some ''test_key'') (SaveCategoryTree categories)) =
         Inr (TreeSaved (save_category_tree categories
                \<lparr>userId = ''user_2wUsqGRXsrr3oD5dsS8zJtGNXN4''\<rparr>)) \<and>
       ''2'' \<notin> set (deleted (save_category_tree categories
                \<lparr>userId = ''user_2wUsqGRXsrr3oD5dsS8zJtGNXN4''\<rparr>)))"
  by (simp add: listByOwner_def tree_ids_def serve_def endpoint_def get_current_user_def
      save_category_tree_def valid_name_def)

text \<open>
  C5, as the code has it. For every persisted state and every submitted tree, the
  returned deleted list is the one fixed ID ending in \<^verbatim>\<open>0003\<close>: an ID is in the list
  exactly when it is that ID, and the response is the same for any two stores.
\<close>

theorem save_category_tree_deleted_fixed:
  "deleted (save_category_tree categories current_user) =
     [''550e8400-e29b-41d4-a716-446655440003''] \<and>
   (i \<in> set (deleted (save_category_tree categories current_user))) =
     (i = ''550e8400-e29b-41d4-a716-446655440003'') \<and>
   fst (serve isoformat st api_key (SaveCategoryTree categories)) =
     fst (serve isoformat st' api_key (SaveCategoryTree categories))"
  by (simp add: save_category_tree_def serve_def)

subsection \<open>The credential\<close>

text \<open>
  C6 says that a request whose credential is missing or invalid fails with HTTP 401 and
  never reaches a handler body. The key \<^verbatim>\<open>"not_the_key"\<close> is not the module's
  \<^verbatim>\<open>API_KEY\<close>, and a delete request that carries it is answered by the handler body.
\<close>

theorem any_nonempty_key_accepted:
  "Some ''not_the_key'' \<noteq> Some API_KEY \<and>
   endpoint ''2026-01-01T00:00:00'' (Some ''not_the_key'') (DeleteCategory ''x'') =
     Inr (Deleted \<lparr>success = True, DeleteResponse.deleted = ''x'',
                   hasChildren = False, childCount = 0\<rparr>)"
  by (simp add: API_KEY_def endpoint_def get_current_user_def delete_category_def)

text \<open>
  C6, as the code has it. For every request to any of the eight routes: if the
  \<^verbatim>\<open>Authorization\<close> header is missing or empty, the response is HTTP 401 with the detail
  \<^verbatim>\<open>Missing API Key\<close>, whatever the request holds, and neither the check of the body nor
  the handler body runs. Every other credential is accepted, whether or not it is
  \<^verbatim>\<open>API_KEY\<close>: the request is then answered by the handler body, run for the one fixed
  user, if its body passes the declared schema, and with a validation error if not.
\<close>

theorem endpoint_credential_check:
  "endpoint isoformat api_key req =
     (if api_key = None \<or> api_key = Some []
      then Inl (HTTPException HTTP_401_UNAUTHORIZED ''Missing API Key''
                  [(''WWW-Authenticate'', ''Bearer'')])
      else if valid_request req
      then handler isoformat req \<lparr>userId = ''user_2wUsqGRXsrr3oD5dsS8zJtGNXN4''\<rparr>
      else Inl RequestValidationError)"
  by (simp add: endpoint_def get_current_user_def)

subsection \<open>Batch save: the empty submission\<close>

text \<open>
  C8 says that an empty submission against a non-empty store returns exactly the
  persisted IDs of the owner as deleted, and no created or updated ID. The user below owns
  the one category \<^verbatim>\<open>"1"\<close> and submits the empty tree: the deleted list is not the list of
  the persisted IDs, and the created and updated lists are not empty.
\<close>

theorem empty_tree_deletes_nothing:
  "(let persisted =
          [\<lparr>id' = ''1'', name = ''Electronics'', parentId = None, order = 0,
            createdAt = ''2023-07-15T12:00:00Z'', updatedAt = ''2023-07-15T12:00:00Z''\<rparr>];
        st = (\<lambda>owner. if owner = ''user_2wUsqGRXsrr3oD5dsS8zJtGNXN4'' then persisted else []);
        r = save_category_tree [] \<lparr>userId = ''user_2wUsqGRXsrr3oD5dsS8zJtGNXN4''\<rparr>
    in listByOwner st ''user_2wUsqGRXsrr3oD5dsS8zJtGNXN4'' \<noteq> [] \<and>
       fst (serve ''2026-01-01T00:00:00'' st (Some ''test_key'') (SaveCategoryTree [])) =
         Inr (TreeSaved r) \<and>
       set (deleted r) \<noteq> set (map id' (listByOwner st ''user_2wUsqGRXsrr3oD5dsS8zJtGNXN4'')) \<and>
       created r \<noteq> [] \<and> updated r \<noteq> [])"
  by (simp add: listByOwner_def serve_def endpoint_def get_current_user_def
      save_category_tree_def)

text \<open>
  C8, as the code has it. For every persisted state, submitting the empty tree returns
  the three fixed lists of every other submission, and every persisted category of every
  owner is still in the store afterwards.
\<close>

theorem save_category_tree_empty_submission:
  "save_category_tree [] current_user =
     \<lparr>created = [''550e8400-e29b-41d4-a716-446655440001'',
                 ''550e8400-e29b-41d4-a716-446655440002''],
      updated = [''550e8400-e29b-41d4-a716-446655440000''],
      deleted = [''550e8400-e29b-41d4-a716-446655440003'']\<rparr> \<and>
   snd (serve isoformat st api_key (SaveCategoryTree [])) = st"
  by (simp add: save_category_tree_def serve_def)

subsection \<open>Batch save: the IDs of the submitted tree\<close>

text \<open>
  C9 says that after a successful save the created IDs, the updated IDs and the retained
  persisted IDs together are exactly the IDs of the submitted tree. The empty tree,
  submitted with a credential against an empty store, has no ID and retains none, and the
  created and updated lists of the response are not empty.
\<close>

theorem empty_tree_union_not_ids:
  "(let r = save_category_tree [] \<lparr>userId = ''user_2wUsqGRXsrr3oD5dsS8zJtGNXN4''\<rparr>
    in fst (serve ''2026-01-01T00:00:00'' (\<lambda>owner. []) (Some ''test_key'')
              (SaveCategoryTree [])) = Inr (TreeSaved r) \<and>
       set (created r) \<union> set (updated r) \<union> set (retained [] []) \<noteq> set (tree_ids []))"
  by (simp add: serve_def endpoint_def get_current_user_def save_category_tree_def
      retained_def tree_ids_def)

text \<open>
  C9, as the code has it. For every submitted tree, the created and updated IDs together
  are the same three fixed IDs; so their union with the retained persisted IDs is the ID
  set of the tree exactly when the tree contains the three fixed IDs and every other ID of
  the tree is a retained persisted ID.
\<close>

theorem save_category_tree_union:
  "set (created (save_category_tree categories current_user)) \<union>
   set (updated (save_category_tree categories current_user)) =
     {''550e8400-e29b-41d4-a716-446655440000'', ''550e8400-e29b-41d4-a716-446655440001'',
      ''550e8400-e29b-41d4-a716-446655440002''} \<and>
   (set (created (save_category_tree categories current_user)) \<union>
    set (updated (save_category_tree categories current_user)) \<union>
    set (retained persisted categories) = set (tree_ids categories)) =
     ({''550e8400-e29b-41d4-a716-446655440000'', ''550e8400-e29b-41d4-a716-446655440001'',
       ''550e8400-e29b-41d4-a716-446655440002''} \<subseteq> set (tree_ids categories) \<and>
      set (tree_ids categories) \<subseteq>
        {''550e8400-e29b-41d4-a716-446655440000'', ''550e8400-e29b-41d4-a716-446655440001'',
         ''550e8400-e29b-41d4-a716-446655440002''} \<union> set (retained persisted categories))"
proof -
  let ?F = "{''550e8400-e29b-41d4-a716-446655440000'', ''550e8400-e29b-41d4-a716-446655440001'',
      ''550e8400-e29b-41d4-a716-446655440002''}"
  have fixed: "set (created (save_category_tree categories current_user)) \<union>
      set (updated (save_category_tree categories current_user)) = ?F"
    by (simp add: save_category_tree_def insert_commute)
  have sub: "set (retained persisted categories) \<subseteq> set (tree_ids categories)"
    by (rule retained_subset)
  have "(?F \<union> set (retained persisted categories) = set (tree_ids categories)) =
      (?F \<subseteq> set (tree_ids categories) \<and>
       set (tree_ids categories) \<subseteq> ?F \<union> set (retained persisted categories))"
    using sub by blast
  then show ?thesis by (simp only: fixed simp_thms)
qed

subsection \<open>Deleting one category\<close>

text \<open>
  C10. For every \<^verbatim>\<open>category_id\<close>, every store and every authenticated request,
  \<^verbatim>\<open>DELETE /api/categories/{category_id}\<close> returns \<^verbatim>\<open>success\<close> true, \<^verbatim>\<open>deleted\<close> equal to
  the supplied ID, \<^verbatim>\<open>hasChildren\<close> false and \<^verbatim>\<open>childCount\<close> 0; the response is never a 404,
  whether or not a category with that ID is stored.
\<close>

theorem delete_category_always_succeeds:
  assumes "api_key \<noteq> None" and "api_key \<noteq> Some []"
  shows "fst (serve isoformat st api_key (DeleteCategory category_id)) =
       Inr (Deleted \<lparr>success = True, DeleteResponse.deleted = category_id,
                     hasChildren = False, childCount = 0\<rparr>) \<and>
     fst (serve isoformat st api_key (DeleteCategory category_id)) \<noteq>
       Inl (HTTPException HTTP_404_NOT_FOUND detail headers)"
  using assms by (simp add: serve_authenticated delete_category_def)

text \<open>
  C10, at a concrete request: the credential \<^verbatim>\<open>"test_key"\<close>, an empty store, and an ID
  that no category has.
\<close>

theorem delete_category_always_succeeds_witness:
  "Some ''test_key'' \<noteq> None \<and> Some ''test_key'' \<noteq> Some [] \<and>
   fst (serve ''2026-01-01T00:00:00'' (\<lambda>owner. []) (Some ''test_key'')
          (DeleteCategory ''no-such-category'')) =
     Inr (Deleted \<lparr>success = True, DeleteResponse.deleted = ''no-such-category'',
                   hasChildren = False, childCount = 0\<rparr>) \<and>
   fst (serve ''2026-01-01T00:00:00'' (\<lambda>owner. []) (Some ''test_key'')
          (DeleteCategory ''no-such-category'')) \<noteq>
     Inl (HTTPException HTTP_404_NOT_FOUND ''Category not found'' [])"
proof -
  have k: "Some ''test_key'' \<noteq> None" "Some ''test_key'' \<noteq> Some []" by simp_all
  show ?thesis
    using k delete_category_always_succeeds
      [OF k, of "''2026-01-01T00:00:00''" "\<lambda>owner. []" "''no-such-category''"
        "''Category not found''" "[]"]
    by simp
qed

end
